theory Spec2Isabelle
  imports Complex_Main "HOL-Library.AList"
begin

section \<open>Ternary plotting utility: shallow embedding of \<open>ternary/plotting.py\<close>\<close>

text \<open>
  Conventions of the embedding.
  \<^item> Python integers are \<open>int\<close>; Python floats are idealised as \<open>real\<close> (no rounding,
    no infinities), so \<open>math.sqrt(3)\<close> is \<open>sqrt 3\<close>.
  \<^item> An exception is a value \<open>Inl e\<close> of \<open>py_error + 'a\<close>.
  \<^item> A generator is the finite list of the values it yields, in order.
  \<^item> A dictionary is an association list in insertion order.
  \<^item> The plotting and colour libraries are collaborators outside the module: their
    functions are the fields of the record \<open>backend\<close>, and a drawing surface is the
    list of artists added to it.
\<close>

subsection \<open>Errors and sequencing\<close>

datatype py_error = TypeError | IndexError | ValueError | ZeroDivisionError | KeyError

text \<open>A list comprehension or \<open>map\<close> whose body may raise: the first error wins.\<close>

fun traverse_err :: "('a \<Rightarrow> 'e + 'b) \<Rightarrow> 'a list \<Rightarrow> 'e + 'b list" where
  "traverse_err f [] = Inr []"
| "traverse_err f (x # xs) =
     (case f x of
        Inl e \<Rightarrow> Inl e
      | Inr y \<Rightarrow> (case traverse_err f xs of Inl e \<Rightarrow> Inl e | Inr ys \<Rightarrow> Inr (y # ys)))"

text \<open>A \<open>for\<close> loop that updates a state and may raise in its body.\<close>

fun for_err :: "('a \<Rightarrow> 's \<Rightarrow> 'e + 's) \<Rightarrow> 'a list \<Rightarrow> 's \<Rightarrow> 'e + 's" where
  "for_err body [] s = Inr s"
| "for_err body (x # xs) s =
     (case body x s of Inl e \<Rightarrow> Inl e | Inr s' \<Rightarrow> for_err body xs s')"

text \<open>\<open>range(a, b)\<close> on integers.\<close>

definition py_range :: "int \<Rightarrow> int \<Rightarrow> int list" where
  "py_range a b = [a..b - 1]"


text \<open>\<open>min(vs)\<close> and \<open>max(vs)\<close>: a value error on the empty collection.\<close>

definition py_min :: "real list \<Rightarrow> py_error + real" where
  "py_min vs = (case vs of [] \<Rightarrow> Inl ValueError | v # rest \<Rightarrow> Inr (fold min rest v))"

definition py_max :: "real list \<Rightarrow> py_error + real" where
  "py_max vs = (case vs of [] \<Rightarrow> Inl ValueError | v # rest \<Rightarrow> Inr (fold max rest v))"

text \<open>\<open>xs[k]\<close> on a sequence of floats.\<close>

definition seq_getitem :: "real list \<Rightarrow> nat \<Rightarrow> py_error + real" where
  "seq_getitem xs k = (if k < length xs then Inr (xs ! k) else Inl IndexError)"

subsection \<open>Constants and helpers\<close>

definition SQRT3OVER2 :: real where
  "SQRT3OVER2 = sqrt 3 / 2"

type_synonym vec = "real \<times> real"

text \<open>\<open>unzip\<close> transposes a sequence of pairs with \<open>zip\<close>: nothing for no rows, else the two columns.\<close>

definition unzip :: "vec list \<Rightarrow> real list list" where
  "unzip l = (if l = [] then [] else [map fst l, map snd l])"


subsection \<open>Projection\<close>

text \<open>
  The argument of \<open>project_point\<close> and \<open>project\<close> is untyped in the source: a number, or a
  tuple or list of further values.
\<close>

datatype pyval = Num real | Tup "pyval list"

text \<open>\<open>p[k]\<close>: a number is not subscriptable, a short sequence has no such index.\<close>

fun py_getitem :: "pyval \<Rightarrow> nat \<Rightarrow> py_error + pyval" where
  "py_getitem (Num r) k = Inl TypeError"
| "py_getitem (Tup vs) k = (if k < length vs then Inr (vs ! k) else Inl IndexError)"

text \<open>\<open>n * v\<close> for an integer literal \<open>n\<close>: scales a number, repeats a sequence.\<close>

fun py_int_mul :: "int \<Rightarrow> pyval \<Rightarrow> pyval" where
  "py_int_mul n (Num r) = Num (of_int n * r)"
| "py_int_mul n (Tup vs) = Tup (concat (replicate (nat n) vs))"

text \<open>\<open>v + w\<close>: adds numbers, concatenates sequences, a type error when mixed.\<close>

fun py_add :: "pyval \<Rightarrow> pyval \<Rightarrow> py_error + pyval" where
  "py_add (Num r) (Num s) = Inr (Num (r + s))"
| "py_add (Tup vs) (Tup ws) = Inr (Tup (vs @ ws))"
| "py_add (Num r) (Tup ws) = Inl TypeError"
| "py_add (Tup vs) (Num s) = Inl TypeError"

text \<open>\<open>f * v\<close> for a float \<open>f\<close>: a sequence cannot be multiplied by a float.\<close>

fun py_float_mul :: "real \<Rightarrow> pyval \<Rightarrow> py_error + real" where
  "py_float_mul f (Num r) = Inr (f * r)"
| "py_float_mul f (Tup vs) = Inl TypeError"

definition project_point :: "pyval \<Rightarrow> py_error + vec" where
  "project_point p =
     (case py_getitem p 0 of Inl e \<Rightarrow> Inl e | Inr a \<Rightarrow>
      case py_getitem p 1 of Inl e \<Rightarrow> Inl e | Inr b \<Rightarrow>
      case py_getitem p 2 of Inl e \<Rightarrow> Inl e | Inr c \<Rightarrow>
      case py_add (py_int_mul 2 b) c of Inl e \<Rightarrow> Inl e | Inr t \<Rightarrow>
      case py_float_mul 0.5 t of Inl e \<Rightarrow> Inl e | Inr x \<Rightarrow>
      case py_float_mul SQRT3OVER2 c of Inl e \<Rightarrow> Inl e | Inr y \<Rightarrow>
      Inr (x, y))"

text \<open>\<open>project\<close> returns one Cartesian pair, or the columns of the projected sequence.\<close>

datatype projected = Single vec | Columns "real list list"

text \<open>\<open>map(project_point, s)\<close>: a number cannot be iterated.\<close>

definition map_project_point :: "pyval \<Rightarrow> py_error + vec list" where
  "map_project_point s =
     (case s of Num r \<Rightarrow> Inl TypeError | Tup ps \<Rightarrow> traverse_err project_point ps)"

definition project :: "pyval \<Rightarrow> py_error + projected" where
  "project s =
     (case map_project_point s of
        Inr pts \<Rightarrow> Inr (Columns (unzip pts))
      | Inl TypeError \<Rightarrow> map_sum id Single (project_point s)
      | Inl IndexError \<Rightarrow> map_sum id Single (project_point s)
      | Inl e \<Rightarrow> Inl e)"

subsection \<open>Lattice enumeration\<close>

definition simplex_points :: "int \<Rightarrow> bool \<Rightarrow> (int \<times> int \<times> int) list" where
  "simplex_points steps boundary =
     (let start = (if \<not> boundary then 1 else 0) in
      concat (map (\<lambda>x1.
                map (\<lambda>x2. (x1, x2, steps - x1 - x2))
                    (py_range start (steps + (1 - start) - x1)))
              (py_range start (steps + (1 - start)))))"

text \<open>Strict lexicographic order on the pairs \<open>(x1, x2)\<close>.\<close>

definition lex_less :: "int \<times> int \<Rightarrow> int \<times> int \<Rightarrow> bool" where
  "lex_less p q = (fst p < fst q \<or> (fst p = fst q \<and> snd p < snd q))"

subsection \<open>Colour mapping\<close>

type_synonym rgba = "real list"
type_synonym colormap = "real \<Rightarrow> rgba"

text \<open>
  The collaborators: seaborn's default colour map (\<open>DEFAULT_COLOR_MAP\<close>), the lookup of a
  colour map by name (\<open>plt.get_cmap\<close>) and \<open>matplotlib.colors.rgb2hex\<close>.
\<close>

record backend =
  DEFAULT_COLOR_MAP :: colormap
  get_cmap :: "string \<Rightarrow> colormap"
  rgb2hex :: "rgba \<Rightarrow> string"

definition colormapper :: "backend \<Rightarrow> real \<Rightarrow> real \<Rightarrow> real \<Rightarrow> colormap option \<Rightarrow> string" where
  "colormapper env x a b cmap =
     (let cmap = (case cmap of None \<Rightarrow> DEFAULT_COLOR_MAP env | Some c \<Rightarrow> c);
          rgba = (if b - a = 0 then cmap 0 else cmap ((x - a) / (b - a)))
      in rgb2hex env rgba)"

subsection \<open>Cell geometry\<close>

definition triangle_coordinates :: "int \<Rightarrow> int \<Rightarrow> bool \<Rightarrow> vec list" where
  "triangle_coordinates i j alt =
     (if \<not> alt then
        [(of_int i / 2 + of_int j, of_int i * SQRT3OVER2),
         (of_int i / 2 + of_int j + 1, of_int i * SQRT3OVER2),
         (of_int i / 2 + of_int j + 0.5, (of_int i + 1) * SQRT3OVER2)]
      else
        [(of_int i / 2 + of_int j + 1, of_int i * SQRT3OVER2),
         (of_int i / 2 + of_int j + 1.5, (of_int i + 1) * SQRT3OVER2),
         (of_int i / 2 + of_int j + 0.5, (of_int i + 1) * SQRT3OVER2)])"

definition vadd :: "vec \<Rightarrow> vec \<Rightarrow> vec" where
  "vadd u v = (fst u + fst v, snd u + snd v)"

definition vsub :: "vec \<Rightarrow> vec \<Rightarrow> vec" where
  "vsub u v = (fst u - fst v, snd u - snd v)"

definition vhalf :: "vec \<Rightarrow> vec" where
  "vhalf v = (fst v / 2, snd v / 2)"

definition i_j_to_x_y :: "int \<Rightarrow> int \<Rightarrow> vec" where
  "i_j_to_x_y i j = (of_int i / 2 + of_int j, SQRT3OVER2 * of_int i)"

definition alpha :: vec where
  "alpha = (0, 1 / sqrt 3)"

definition deltaup :: vec where
  "deltaup = (1 / 2, 1 / (2 * sqrt 3))"

definition deltadown :: vec where
  "deltadown = (1 / 2, - 1 / (2 * sqrt 3))"

definition i_vec :: vec where
  "i_vec = (1 / 2, sqrt 3 / 2)"

definition i_vec_down :: vec where
  "i_vec_down = (1 / 2, - sqrt 3 / 2)"

definition deltaX_vec :: vec where
  "deltaX_vec = (fst deltadown, 0)"

text \<open>
  The lattice cell at \<open>(i, j)\<close> is the rhombus spanned by \<open>(1, 0)\<close> and \<open>(1/2, sqrt(3)/2)\<close>
  from the cell's Cartesian position; \<open>cell_point i j s t\<close> is its point at the rhombus
  coordinates \<open>(s, t)\<close>, both in \<open>[0, 1]\<close>. A point lies in a polygon when it is a
  weighted sum of the vertices with non-negative weights that sum to 1.
\<close>

definition convex_weights :: "real list \<Rightarrow> bool" where
  "convex_weights ws = (list_all (\<lambda>w. 0 \<le> w) ws \<and> sum_list ws = 1)"

definition weighted_sum :: "real list \<Rightarrow> vec list \<Rightarrow> vec" where
  "weighted_sum ws vs =
     (sum_list (map2 (\<lambda>w v. w * fst v) ws vs), sum_list (map2 (\<lambda>w v. w * snd v) ws vs))"

definition cell_point :: "int \<Rightarrow> int \<Rightarrow> real \<Rightarrow> real \<Rightarrow> vec" where
  "cell_point i j s t = vadd (i_j_to_x_y i j) (s + t / 2, t * SQRT3OVER2)"

text \<open>
  The source assigns \<open>coords\<close> and then overrides it in six \<open>if\<close> statements run in
  sequence; each \<open>let\<close> below is one of them, in the source's order.
\<close>

definition hex_coordinates :: "int \<Rightarrow> int \<Rightarrow> int \<Rightarrow> vec list" where
  "hex_coordinates i j steps =
     (let ij = i_j_to_x_y i j;
          coords = [vadd ij alpha, vadd ij deltaup, vadd ij deltadown,
                    vsub ij alpha, vsub ij deltaup, vsub ij deltadown];
          coords = (if i = 0 \<and> (j \<noteq> steps \<and> j \<noteq> 0)
                    then [vsub ij deltaX_vec, vsub ij deltadown, vadd ij alpha,
                          vadd ij deltaup, vadd ij deltaX_vec]
                    else coords);
          coords = (if j = 0 \<and> (i \<noteq> steps \<and> i \<noteq> 0)
                    then [vadd ij (vhalf i_vec), vadd ij deltaup, vadd ij deltadown,
                          vsub ij alpha, vsub ij (vhalf i_vec)]
                    else coords);
          coords = (if i + j = steps \<and> (i \<noteq> 0 \<and> j \<noteq> 0)
                    then [vadd ij (vhalf i_vec_down), vsub ij alpha, vsub ij deltaup,
                          vsub ij deltadown, vsub ij (vhalf i_vec_down)]
                    else coords);
          coords = (if i = steps \<and> j = 0
                    then [ij, vadd ij (vhalf i_vec_down), vsub ij alpha, vsub ij (vhalf i_vec)]
                    else coords);
          coords = (if i = 0 \<and> j = 0
                    then [ij, vadd ij (vhalf i_vec), vadd ij deltaup, vadd ij deltaX_vec]
                    else coords);
          coords = (if j = steps \<and> i = 0
                    then [ij, vsub ij deltaX_vec, vsub ij deltadown, vsub ij (vhalf i_vec_down)]
                    else coords)
      in coords)"

subsection \<open>Heatmap rendering\<close>

text \<open>
  What the module adds to a drawing surface: a filled polygon (\<open>ax.fill(x, y, facecolor,
  edgecolor)\<close>) or the colour bar of a colour map over \<open>[vmin, vmax]\<close> with its number of
  ticks and whether the scientific formatter is set.
\<close>

datatype artist =
    Fill "real list" "real list" string string
  | Colorbar colormap real real nat bool

type_synonym axes = "artist list"

type_synonym heat_dict = "((int \<times> int) \<times> real) list"

text \<open>\<open>d[i, j]\<close>: a key error for a missing key.\<close>

definition dict_getitem :: "heat_dict \<Rightarrow> int \<times> int \<Rightarrow> py_error + real" where
  "dict_getitem d k = (case map_of d k of None \<Rightarrow> Inl KeyError | Some v \<Rightarrow> Inr v)"

text \<open>The colour domain \<open>(a, b)\<close> of \<open>heatmap\<close>: the first statements of its body.\<close>

definition heatmap_domain :: "heat_dict \<Rightarrow> real list option \<Rightarrow> py_error + real \<times> real" where
  "heatmap_domain d min_max_scale =
     (case min_max_scale of
        None \<Rightarrow>
          (case py_min (map snd d) of Inl e \<Rightarrow> Inl e | Inr a \<Rightarrow>
           case py_max (map snd d) of Inl e \<Rightarrow> Inl e | Inr b \<Rightarrow> Inr (a, b))
      | Some mms \<Rightarrow>
          (case seq_getitem mms 0 of Inl e \<Rightarrow> Inl e | Inr a \<Rightarrow>
           case seq_getitem mms 1 of Inl e \<Rightarrow> Inl e | Inr b \<Rightarrow> Inr (a, b)))"

text \<open>The body of the loop over \<open>d.items()\<close>: one filled cell per entry.\<close>

definition heatmap_cell ::
  "backend \<Rightarrow> heat_dict \<Rightarrow> int \<Rightarrow> colormap \<Rightarrow> real \<Rightarrow> real \<Rightarrow> (int \<times> int) \<times> real \<Rightarrow> axes
     \<Rightarrow> py_error + axes" where
  "heatmap_cell env d steps cmap a b kv ax =
     (let (i, j) = fst kv;
          vertices = hex_coordinates i j steps
      in case unzip vertices of
           [x, y] \<Rightarrow>
             (case dict_getitem d (i, j) of
                Inl e \<Rightarrow> Inl e
              | Inr c \<Rightarrow>
                  (let color = colormapper env c a b (Some cmap)
                   in Inr (ax @ [Fill x y color color])))
         | _ \<Rightarrow> Inl ValueError)"

text \<open>\<open>if not ax: ax = plt.subplot()\<close>: a fresh, empty surface when none is given.\<close>

definition resolve_ax :: "axes option \<Rightarrow> axes" where
  "resolve_ax ax = (case ax of None \<Rightarrow> [] | Some surface \<Rightarrow> surface)"

text \<open>
  \<open>if not cmap_name: cmap = DEFAULT_COLOR_MAP else: cmap = plt.get_cmap(cmap_name)\<close>; the
  empty name is false in Python as \<open>None\<close> is.
\<close>

definition resolve_cmap_name :: "backend \<Rightarrow> string option \<Rightarrow> colormap" where
  "resolve_cmap_name env cmap_name =
     (case cmap_name of
        None \<Rightarrow> DEFAULT_COLOR_MAP env
      | Some name \<Rightarrow> if name = [] then DEFAULT_COLOR_MAP env else get_cmap env name)"

text \<open>
  The artist the loop body adds for an entry \<open>((i, j), v)\<close> of the dictionary when nothing
  raises: the columns of the cell's polygon, filled and edged in the colour of \<open>v\<close>.
\<close>

definition cell_fill ::
  "backend \<Rightarrow> int \<Rightarrow> colormap \<Rightarrow> real \<Rightarrow> real \<Rightarrow> (int \<times> int) \<times> real \<Rightarrow> artist" where
  "cell_fill env steps cmap a b kv =
     (let vertices = hex_coordinates (fst (fst kv)) (snd (fst kv)) steps;
          color = colormapper env (snd kv) a b (Some cmap)
      in Fill (map fst vertices) (map snd vertices) color color)"

definition heatmap ::
  "backend \<Rightarrow> heat_dict \<Rightarrow> int \<Rightarrow> string option \<Rightarrow> bool \<Rightarrow> axes option \<Rightarrow> bool
     \<Rightarrow> real list option \<Rightarrow> py_error + axes" where
  "heatmap env d steps cmap_name boundary ax scientific min_max_scale =
     (let ax = resolve_ax ax;
          cmap = resolve_cmap_name env cmap_name
      in case heatmap_domain d min_max_scale of
           Inl e \<Rightarrow> Inl e
         | Inr (a, b) \<Rightarrow>
             (case for_err (heatmap_cell env d steps cmap a b) d ax of
                Inl e \<Rightarrow> Inl e
              | Inr ax \<Rightarrow> Inr (ax @ [Colorbar cmap a b 7 scientific])))"

subsection \<open>Functional sampling\<close>


subsection \<open>A sample backend\<close>

text \<open>
  A concrete collaborator for evaluating the functions above on concrete inputs: every
  colour map is the grey ramp, and a colour is written as \<open>#000000\<close> when it is black
  and \<open>#ffffff\<close> otherwise.
\<close>

definition grey_ramp :: colormap where
  "grey_ramp t = [t, t, t, 1]"

definition sample_backend :: backend where
  "sample_backend =
     \<lparr>DEFAULT_COLOR_MAP = grey_ramp,
      get_cmap = (\<lambda>name. grey_ramp),
      rgb2hex = (\<lambda>c. if c = [0, 0, 0, 1] then ''#000000'' else ''#ffffff'')\<rparr>"

section \<open>Lattice enumeration: count, invariant and order\<close>

lemma length_py_range: "length (py_range a b) = nat (b - a)"
  by (simp add: py_range_def)

lemma set_py_range: "set (py_range a b) = {a..<b}"
  by (auto simp add: py_range_def)

lemma countdown_sum:
  "2 * (\<Sum>x\<leftarrow>[a..a + int n - 1]. (a + int n - x - c)) = int n * (int n + 1) - 2 * c * int n"
proof (induction n arbitrary: a)
  case 0
  then show ?case by simp
next
  case (Suc n)
  have unfold: "[a..a + int (Suc n) - 1] = a # [a + 1..(a + 1) + int n - 1]"
    by (simp add: upto_rec1 add.commute add.left_commute)
  have "2 * (\<Sum>x\<leftarrow>[a + 1..(a + 1) + int n - 1]. ((a + 1) + int n - x - c))
          = int n * (int n + 1) - 2 * c * int n"
    using Suc.IH[of "a + 1"] .
  with unfold show ?case
    by (simp add: algebra_simps)
qed

lemma int_sum_list_nat:
  "(\<And>x. x \<in> set xs \<Longrightarrow> 0 \<le> f x) \<Longrightarrow> int (\<Sum>x\<leftarrow>xs. nat (f x)) = (\<Sum>x\<leftarrow>xs. f x)"
  by (induction xs) auto

lemma length_simplex_points_sum:
  "int (length (simplex_points steps boundary)) =
     (\<Sum>x1\<leftarrow>[(if boundary then 0 else 1)..(if boundary then steps else steps - 1)].
         (if boundary then steps + 1 - x1 else steps - x1 - 1))"
proof -
  define start :: int where "start = (if boundary then 0 else 1)"
  define stop where "stop = steps + (1 - start)"
  have len: "length (simplex_points steps boundary) =
         (\<Sum>x1\<leftarrow>[start..stop - 1]. nat (stop - x1 - start))"
    by (cases boundary)
       (simp_all add: simplex_points_def length_concat comp_def length_py_range py_range_def
          start_def stop_def algebra_simps)
  have "int (\<Sum>x1\<leftarrow>[start..stop - 1]. nat (stop - x1 - start))
          = (\<Sum>x1\<leftarrow>[start..stop - 1]. stop - x1 - start)"
  proof (rule int_sum_list_nat)
    fix x assume "x \<in> set [start..stop - 1]"
    then show "0 \<le> stop - x - start"
      by (auto simp: start_def stop_def split: if_splits)
  qed
  with len show ?thesis
    by (cases boundary) (simp_all add: start_def stop_def algebra_simps)
qed

text \<open>
  Claim C3. For every non-negative integer \<open>N\<close>, \<open>simplex_points(steps=N, boundary=True)\<close>
  yields exactly \<open>(N+1)(N+2)/2\<close> triples, and \<open>simplex_points(steps=N, boundary=False)\<close>
  yields exactly \<open>(N-1)(N-2)/2\<close> triples when \<open>N \<ge> 2\<close> and none otherwise.
\<close>

theorem simplex_points_count:
  assumes "0 \<le> N"
  shows "int (length (simplex_points N True)) = (N + 1) * (N + 2) div 2
       \<and> int (length (simplex_points N False)) = (if 2 \<le> N then (N - 1) * (N - 2) div 2 else 0)"
proof
  have "2 * (\<Sum>x\<leftarrow>[0..0 + int (nat (N + 1)) - 1]. (0 + int (nat (N + 1)) - x - 0))
          = int (nat (N + 1)) * (int (nat (N + 1)) + 1) - 2 * 0 * int (nat (N + 1))"
    by (rule countdown_sum)
  with assms have "2 * (\<Sum>x\<leftarrow>[0..N]. (N + 1 - x)) = (N + 1) * (N + 2)"
    by (simp add: algebra_simps)
  moreover have "int (length (simplex_points N True)) = (\<Sum>x\<leftarrow>[0..N]. (N + 1 - x))"
    by (simp add: length_simplex_points_sum)
  ultimately show "int (length (simplex_points N True)) = (N + 1) * (N + 2) div 2"
    by linarith
next
  show "int (length (simplex_points N False)) = (if 2 \<le> N then (N - 1) * (N - 2) div 2 else 0)"
  proof (cases "2 \<le> N")
    case True
    have "2 * (\<Sum>x\<leftarrow>[1..1 + int (nat (N - 1)) - 1]. (1 + int (nat (N - 1)) - x - 1))
            = int (nat (N - 1)) * (int (nat (N - 1)) + 1) - 2 * 1 * int (nat (N - 1))"
      by (rule countdown_sum)
    with True have "2 * (\<Sum>x\<leftarrow>[1..N - 1]. (N - x - 1)) = (N - 1) * (N - 2)"
      by (simp add: algebra_simps)
    moreover have "int (length (simplex_points N False)) = (\<Sum>x\<leftarrow>[1..N - 1]. (N - x - 1))"
      by (simp add: length_simplex_points_sum)
    ultimately have "int (length (simplex_points N False)) = (N - 1) * (N - 2) div 2"
      by linarith
    with True show ?thesis by simp
  next
    case False
    then have "[1..N - 1] = []" by simp
    with False show ?thesis
      by (simp add: length_simplex_points_sum)
  qed
qed

theorem simplex_points_count_witness:
  "(0::int) \<le> 3 \<and> int (length (simplex_points 3 True)) = 10
       \<and> int (length (simplex_points 3 False)) = 1"
  using simplex_points_count[of 3] by simp

lemma simplex_points_mem:
  "(x1, x2, x3) \<in> set (simplex_points steps boundary) \<longleftrightarrow>
     (if boundary then 0 \<le> x1 \<and> 0 \<le> x2 \<and> x2 < steps + 1 - x1
      else 1 \<le> x1 \<and> 1 \<le> x2 \<and> x2 < steps - x1)
      \<and> x3 = steps - x1 - x2"
proof (cases boundary)
  case True
  then show ?thesis
    by (simp add: simplex_points_def set_py_range image_iff) fastforce
next
  case False
  then show ?thesis
    by (simp add: simplex_points_def set_py_range image_iff) fastforce
qed

text \<open>
  Claim C4. Every triple \<open>(x1, x2, x3)\<close> yielded by \<open>simplex_points(steps, boundary)\<close>, for
  any \<open>steps\<close> and either flag, satisfies \<open>x1 + x2 + x3 = steps\<close>, has non-negative integer
  components, and has strictly positive components when \<open>boundary\<close> is false.
\<close>

theorem simplex_points_sum_invariant:
  "(x1, x2, x3) \<in> set (simplex_points steps boundary) \<Longrightarrow>
     x1 + x2 + x3 = steps \<and> 0 \<le> x1 \<and> 0 \<le> x2 \<and> 0 \<le> x3
     \<and> (\<not> boundary \<longrightarrow> 0 < x1 \<and> 0 < x2 \<and> 0 < x3)"
  by (cases boundary) (auto simp add: simplex_points_mem)

theorem simplex_points_sum_invariant_witness:
  "(1, 1, 1) \<in> set (simplex_points 3 False) \<and> \<not> False
     \<and> (1::int) + 1 + 1 = 3 \<and> (0::int) < 1"
  using simplex_points_sum_invariant[of 1 1 1 3 False]
  by (simp add: simplex_points_mem)

lemma sorted_wrt_concat_rows:
  assumes "sorted_wrt (<) xs"
    and "\<And>x. x \<in> set xs \<Longrightarrow> sorted_wrt (<) (row x)"
  shows "sorted_wrt lex_less (concat (map (\<lambda>x. map (\<lambda>y. (x, y)) (row x)) xs))"
  using assms
proof (induction xs)
  case Nil
  then show ?case by simp
next
  case (Cons x xs)
  have here: "sorted_wrt lex_less (map (\<lambda>y. (x, y)) (row x))"
    using Cons.prems(2)[of x] by (simp add: sorted_wrt_map lex_less_def)
  have rest: "sorted_wrt lex_less (concat (map (\<lambda>x. map (\<lambda>y. (x, y)) (row x)) xs))"
    using Cons by simp
  have cross: "lex_less p q" if "p \<in> set (map (\<lambda>y. (x, y)) (row x))"
      and "q \<in> set (concat (map (\<lambda>x. map (\<lambda>y. (x, y)) (row x)) xs))" for p q
    using that Cons.prems(1) by (auto simp add: lex_less_def)
  from here rest cross show ?case
    by (simp add: sorted_wrt_append)
qed

text \<open>
  Claim C5. \<open>simplex_points(steps, boundary)\<close> yields its triples in strictly increasing
  lexicographic order of \<open>(x1, x2)\<close> (\<open>x1\<close> ascending in the outer loop, \<open>x2\<close> ascending in
  the inner loop), with \<open>x3\<close> derived as \<open>steps - x1 - x2\<close>. The sequence is a function of
  the two arguments alone, so it is the same on every call.
\<close>

theorem simplex_points_order:
  "sorted_wrt lex_less (map (\<lambda>(x1, x2, x3). (x1, x2)) (simplex_points steps boundary))
   \<and> (\<forall>(x1, x2, x3) \<in> set (simplex_points steps boundary). x3 = steps - x1 - x2)"
proof
  define start :: int where "start = (if \<not> boundary then 1 else 0)"
  have "map (\<lambda>(x1, x2, x3). (x1, x2)) (simplex_points steps boundary) =
          concat (map (\<lambda>x1. map (\<lambda>x2. (x1, x2)) (py_range start (steps + (1 - start) - x1)))
                      (py_range start (steps + (1 - start))))"
    by (simp add: simplex_points_def start_def map_concat comp_def)
  moreover have "sorted_wrt lex_less \<dots>"
    by (rule sorted_wrt_concat_rows) (simp_all add: py_range_def)
  ultimately show "sorted_wrt lex_less (map (\<lambda>(x1, x2, x3). (x1, x2)) (simplex_points steps boundary))"
    by simp
next
  show "\<forall>(x1, x2, x3) \<in> set (simplex_points steps boundary). x3 = steps - x1 - x2"
    by (auto simp add: simplex_points_mem)
qed

theorem simplex_points_order_witness:
  "simplex_points 2 True = [(0, 0, 2), (0, 1, 1), (0, 2, 0), (1, 0, 1), (1, 1, 0), (2, 0, 0)]
   \<and> sorted_wrt lex_less [(0, 0), (0, 1), (0, 2), (1, 0), (1, 1), (2, 0)]"
  using simplex_points_order[of 2 True]
  by (simp add: simplex_points_def py_range_def upto_rec1)

section \<open>Cell geometry and projection\<close>

text \<open>
  Claim C1. \<open>hex_coordinates(0,0,S)\<close>, \<open>hex_coordinates(S,0,S)\<close> and
  \<open>hex_coordinates(0,S,S)\<close> each return a polygon with exactly 4 vertices; every interior
  lattice point (\<open>0 < i\<close>, \<open>0 < j\<close>, \<open>i + j < S\<close>) gets exactly 6 vertices; every non-corner
  boundary point (\<open>i = 0\<close> with \<open>0 < j < S\<close>, or \<open>j = 0\<close> with \<open>0 < i < S\<close>, or \<open>i + j = S\<close>
  with \<open>0 < i\<close> and \<open>0 < j\<close>) gets exactly 5 vertices. The corner overrides run last, so a
  corner is never drawn as an edge cell. The statement holds for every integer \<open>S\<close>, in
  particular for the non-negative ones.
\<close>

theorem hex_coordinates_vertex_count:
  "length (hex_coordinates 0 0 S) = 4
   \<and> length (hex_coordinates S 0 S) = 4
   \<and> length (hex_coordinates 0 S S) = 4
   \<and> (0 < i \<and> 0 < j \<and> i + j < S \<longrightarrow> length (hex_coordinates i j S) = 6)
   \<and> ((i = 0 \<and> 0 < j \<and> j < S) \<or> (j = 0 \<and> 0 < i \<and> i < S) \<or> (i + j = S \<and> 0 < i \<and> 0 < j)
        \<longrightarrow> length (hex_coordinates i j S) = 5)"
  by (auto simp add: hex_coordinates_def Let_def)

theorem hex_coordinates_vertex_count_witness:
  "length (hex_coordinates 1 1 3) = 6
   \<and> length (hex_coordinates 0 1 3) = 5
   \<and> length (hex_coordinates 1 0 3) = 5
   \<and> length (hex_coordinates 1 2 3) = 5
   \<and> length (hex_coordinates 0 0 3) = 4"
  using hex_coordinates_vertex_count[where S = 3 and i = 1 and j = 1]
    hex_coordinates_vertex_count[where S = 3 and i = 0 and j = 1]
    hex_coordinates_vertex_count[where S = 3 and i = 1 and j = 0]
    hex_coordinates_vertex_count[where S = 3 and i = 1 and j = 2]
  by simp

text \<open>
  Claim C2. \<open>project_point\<close> maps every barycentric triple \<open>(a, b, c)\<close> to the Cartesian
  pair \<open>(b + c/2, c * sqrt(3)/2)\<close>; in particular it maps \<open>(1,0,0)\<close>, \<open>(0,1,0)\<close> and
  \<open>(0,0,1)\<close> to \<open>(0,0)\<close>, \<open>(1,0)\<close> and \<open>(0.5, sqrt(3)/2)\<close>.
\<close>

theorem project_point_formula:
  "project_point (Tup [Num a, Num b, Num c]) = Inr (b + c / 2, c * sqrt 3 / 2)
   \<and> project_point (Tup [Num 1, Num 0, Num 0]) = Inr (0, 0)
   \<and> project_point (Tup [Num 0, Num 1, Num 0]) = Inr (1, 0)
   \<and> project_point (Tup [Num 0, Num 0, Num 1]) = Inr (0.5, sqrt 3 / 2)"
  by (simp add: project_point_def SQRT3OVER2_def)

text \<open>
  Claim C9. For every integer pair \<open>(i, j)\<close>, \<open>triangle_coordinates(i, j, alt=False)\<close>
  returns exactly the vertices \<open>(i/2+j, i*sqrt(3)/2)\<close>, \<open>(i/2+j+1, i*sqrt(3)/2)\<close>,
  \<open>(i/2+j+0.5, (i+1)*sqrt(3)/2)\<close>, and \<open>triangle_coordinates(i, j, alt=True)\<close> returns
  exactly \<open>(i/2+j+1, i*sqrt(3)/2)\<close>, \<open>(i/2+j+1.5, (i+1)*sqrt(3)/2)\<close>,
  \<open>(i/2+j+0.5, (i+1)*sqrt(3)/2)\<close>. The union of the two vertex sets is the set of the four
  corners of the lattice cell at \<open>(i, j)\<close>, and the two triangles leave no gap in the cell:
  every point of the cell is a convex combination of the vertices of one of them.
\<close>

theorem triangle_coordinates_closed_form:
  "triangle_coordinates i j False =
     [(real_of_int i / 2 + real_of_int j, real_of_int i * sqrt 3 / 2),
      (real_of_int i / 2 + real_of_int j + 1, real_of_int i * sqrt 3 / 2),
      (real_of_int i / 2 + real_of_int j + 0.5, (real_of_int i + 1) * sqrt 3 / 2)]
   \<and> triangle_coordinates i j True =
     [(real_of_int i / 2 + real_of_int j + 1, real_of_int i * sqrt 3 / 2),
      (real_of_int i / 2 + real_of_int j + 1.5, (real_of_int i + 1) * sqrt 3 / 2),
      (real_of_int i / 2 + real_of_int j + 0.5, (real_of_int i + 1) * sqrt 3 / 2)]
   \<and> set (triangle_coordinates i j False) \<union> set (triangle_coordinates i j True) =
       {cell_point i j 0 0, cell_point i j 1 0, cell_point i j 0 1, cell_point i j 1 1}
   \<and> (0 \<le> s \<and> s \<le> 1 \<and> 0 \<le> t \<and> t \<le> 1 \<longrightarrow>
        (convex_weights [1 - s - t, s, t]
         \<and> weighted_sum [1 - s - t, s, t] (triangle_coordinates i j False) = cell_point i j s t)
      \<or> (convex_weights [1 - t, s + t - 1, 1 - s]
         \<and> weighted_sum [1 - t, s + t - 1, 1 - s] (triangle_coordinates i j True) = cell_point i j s t))"
proof -
  have lower: "weighted_sum [1 - s - t, s, t] (triangle_coordinates i j False) = cell_point i j s t"
    by (simp add: weighted_sum_def triangle_coordinates_def cell_point_def vadd_def i_j_to_x_y_def
        algebra_simps)
  have upper: "weighted_sum [1 - t, s + t - 1, 1 - s] (triangle_coordinates i j True) = cell_point i j s t"
    by (simp add: weighted_sum_def triangle_coordinates_def cell_point_def vadd_def i_j_to_x_y_def
        algebra_simps)
  have cover: "convex_weights [1 - s - t, s, t] \<or> convex_weights [1 - t, s + t - 1, 1 - s]"
    if "0 \<le> s \<and> s \<le> 1 \<and> 0 \<le> t \<and> t \<le> 1"
    using that by (cases "s + t \<le> 1") (simp_all add: convex_weights_def)
  have corners: "set (triangle_coordinates i j False) \<union> set (triangle_coordinates i j True) =
       {cell_point i j 0 0, cell_point i j 1 0, cell_point i j 0 1, cell_point i j 1 1}"
    by (auto simp add: triangle_coordinates_def SQRT3OVER2_def i_j_to_x_y_def vadd_def cell_point_def
        algebra_simps)
  have forms: "triangle_coordinates i j False =
     [(real_of_int i / 2 + real_of_int j, real_of_int i * sqrt 3 / 2),
      (real_of_int i / 2 + real_of_int j + 1, real_of_int i * sqrt 3 / 2),
      (real_of_int i / 2 + real_of_int j + 0.5, (real_of_int i + 1) * sqrt 3 / 2)]
   \<and> triangle_coordinates i j True =
     [(real_of_int i / 2 + real_of_int j + 1, real_of_int i * sqrt 3 / 2),
      (real_of_int i / 2 + real_of_int j + 1.5, (real_of_int i + 1) * sqrt 3 / 2),
      (real_of_int i / 2 + real_of_int j + 0.5, (real_of_int i + 1) * sqrt 3 / 2)]"
    by (simp add: triangle_coordinates_def SQRT3OVER2_def)
  from forms corners lower upper cover show ?thesis
    by blast
qed

theorem triangle_coordinates_closed_form_witness:
  "(0::real) \<le> 1 / 4 \<and> (1 / 4 :: real) \<le> 1
   \<and> convex_weights [1 - 1 / 4 - 1 / 4, 1 / 4, 1 / 4]
   \<and> weighted_sum [1 - 1 / 4 - 1 / 4, 1 / 4, 1 / 4] (triangle_coordinates 2 3 False) = cell_point 2 3 (1 / 4) (1 / 4)
   \<and> \<not> convex_weights [1 - 1 / 4, 1 / 4 + 1 / 4 - 1, 1 - 1 / 4]"
proof -
  have inside: "(0::real) \<le> 1 / 4 \<and> (1 / 4 :: real) \<le> 1 \<and> (0::real) \<le> 1 / 4 \<and> (1 / 4 :: real) \<le> 1"
    by simp
  have not_upper: "\<not> convex_weights [1 - 1 / 4, 1 / 4 + 1 / 4 - 1, 1 - 1 / 4]"
    by (simp add: convex_weights_def)
  from triangle_coordinates_closed_form[of 2 3 "1 / 4" "1 / 4"] inside not_upper
  show ?thesis by blast
qed

section \<open>Colour mapping\<close>

text \<open>
  Claim C6. For every domain with \<open>a < b\<close>, \<open>colormapper(a, a, b, cmap)\<close> returns the hex
  encoding of the colour map's value at \<open>t = 0\<close> and \<open>colormapper(b, a, b, cmap)\<close> that of
  its value at \<open>t = 1\<close>; for a degenerate domain, \<open>colormapper(x, a, a, cmap)\<close> returns the
  \<open>t = 0\<close> colour for every \<open>x\<close>. The result is the string that \<open>rgb2hex\<close> produces; the
  colour map is the given one, or the default when none is given.
\<close>

theorem colormapper_endpoints:
  "(a < b \<longrightarrow>
       colormapper env a a b cmap
         = rgb2hex env ((case cmap of None \<Rightarrow> DEFAULT_COLOR_MAP env | Some c \<Rightarrow> c) 0)
     \<and> colormapper env b a b cmap
         = rgb2hex env ((case cmap of None \<Rightarrow> DEFAULT_COLOR_MAP env | Some c \<Rightarrow> c) 1))
   \<and> colormapper env x a a cmap
         = rgb2hex env ((case cmap of None \<Rightarrow> DEFAULT_COLOR_MAP env | Some c \<Rightarrow> c) 0)"
  by (simp add: colormapper_def Let_def)

theorem colormapper_endpoints_witness:
  "(0::real) < 1
   \<and> colormapper sample_backend 0 0 1 None = ''#000000''
   \<and> colormapper sample_backend 1 0 1 None = ''#ffffff''
   \<and> colormapper sample_backend 5 2 2 (Some grey_ramp) = ''#000000''"
  using colormapper_endpoints[of 0 1 sample_backend None]
    colormapper_endpoints[of 2 2 sample_backend "Some grey_ramp" 5]
  by (simp add: sample_backend_def grey_ramp_def)

section \<open>Heatmap rendering\<close>

lemma hex_coordinates_nonempty: "hex_coordinates i j steps \<noteq> []"
  by (simp add: hex_coordinates_def Let_def)

lemma dict_getitem_distinct:
  "distinct (map fst d) \<Longrightarrow> (k, v) \<in> set d \<Longrightarrow> dict_getitem d k = Inr v"
  by (simp add: dict_getitem_def)

lemma heatmap_cell_entry:
  assumes "distinct (map fst d)" and "kv \<in> set d"
  shows "heatmap_cell env d steps cmap a b kv ax = Inr (ax @ [cell_fill env steps cmap a b kv])"
proof -
  obtain i j v where kv: "kv = ((i, j), v)"
    by (metis surj_pair)
  with assms have "dict_getitem d (i, j) = Inr v"
    by (simp add: dict_getitem_distinct)
  with kv show ?thesis
    by (simp add: heatmap_cell_def cell_fill_def unzip_def hex_coordinates_nonempty Let_def)
qed

lemma for_err_heatmap_cells:
  assumes "distinct (map fst d)"
  shows "set ds \<subseteq> set d \<Longrightarrow>
     for_err (heatmap_cell env d steps cmap a b) ds ax
       = Inr (ax @ map (cell_fill env steps cmap a b) ds)"
proof (induction ds arbitrary: ax)
  case Nil
  then show ?case by simp
next
  case (Cons kv ds)
  then have "kv \<in> set d" and "set ds \<subseteq> set d" by simp_all
  then show ?case
    using Cons.IH[of "ax @ [cell_fill env steps cmap a b kv]"]
    by (simp add: heatmap_cell_entry[OF assms])
qed

lemma heatmap_domain_override: "heatmap_domain d (Some (lo # hi # rest)) = Inr (lo, hi)"
  by (simp add: heatmap_domain_def seq_getitem_def)

lemma heatmap_domain_data:
  assumes "d \<noteq> []"
  shows "heatmap_domain d None = Inr (Min (snd ` set d), Max (snd ` set d))"
proof -
  obtain kv rest where d: "d = kv # rest"
    using assms by (cases d) auto
  have "snd ` set d = set (snd kv # map snd rest)"
    by (simp add: d)
  then have "Min (snd ` set d) = fold min (map snd rest) (snd kv)"
    and "Max (snd ` set d) = fold max (map snd rest) (snd kv)"
    by (simp_all only: Min.set_eq_fold Max.set_eq_fold)
  then show ?thesis
    by (simp add: heatmap_domain_def py_min_def py_max_def d)
qed

lemma heatmap_domain_empty: "heatmap_domain [] None = Inl ValueError"
  by (simp add: heatmap_domain_def py_min_def)

lemma heatmap_with_domain:
  assumes "distinct (map fst d)" and "heatmap_domain d min_max_scale = Inr (a, b)"
  shows "heatmap env d steps cmap_name boundary ax scientific min_max_scale =
           Inr (resolve_ax ax @ map (cell_fill env steps (resolve_cmap_name env cmap_name) a b) d
                @ [Colorbar (resolve_cmap_name env cmap_name) a b 7 scientific])"
  using assms(2) for_err_heatmap_cells[OF assms(1), of d]
  by (simp add: heatmap_def Let_def)

text \<open>
  Claim C7. \<open>heatmap\<close> fails with a value error when the mapping is empty and no
  \<open>min_max_scale\<close> is supplied; with an explicit \<open>min_max_scale\<close> it does not raise on the
  empty mapping and draws only the colour bar. When \<open>min_max_scale\<close> is supplied the colour
  domain \<open>(a, b)\<close> is its first two entries, otherwise it is the minimum and the maximum of
  the mapping's values; the domain is the one used for every cell's colour and for the
  colour bar. A dictionary has distinct keys.
\<close>

theorem heatmap_colour_domain:
  "heatmap env [] steps cmap_name boundary ax scientific None = Inl ValueError
   \<and> heatmap env [] steps cmap_name boundary ax scientific (Some (lo # hi # rest))
       = Inr (resolve_ax ax @ [Colorbar (resolve_cmap_name env cmap_name) lo hi 7 scientific])
   \<and> heatmap_domain d (Some (lo # hi # rest)) = Inr (lo, hi)
   \<and> (d \<noteq> [] \<longrightarrow> heatmap_domain d None = Inr (Min (snd ` set d), Max (snd ` set d)))
   \<and> (distinct (map fst d) \<longrightarrow>
        heatmap env d steps cmap_name boundary ax scientific (Some (lo # hi # rest))
          = Inr (resolve_ax ax
                 @ map (cell_fill env steps (resolve_cmap_name env cmap_name) lo hi) d
                 @ [Colorbar (resolve_cmap_name env cmap_name) lo hi 7 scientific]))
   \<and> (distinct (map fst d) \<and> d \<noteq> [] \<longrightarrow>
        heatmap env d steps cmap_name boundary ax scientific None
          = Inr (resolve_ax ax
                 @ map (cell_fill env steps (resolve_cmap_name env cmap_name)
                          (Min (snd ` set d)) (Max (snd ` set d))) d
                 @ [Colorbar (resolve_cmap_name env cmap_name)
                      (Min (snd ` set d)) (Max (snd ` set d)) 7 scientific]))"
proof -
  have empty_none: "heatmap env [] steps cmap_name boundary ax scientific None = Inl ValueError"
    by (simp add: heatmap_def heatmap_domain_empty)
  have empty_some: "heatmap env [] steps cmap_name boundary ax scientific (Some (lo # hi # rest))
       = Inr (resolve_ax ax @ [Colorbar (resolve_cmap_name env cmap_name) lo hi 7 scientific])"
    using heatmap_with_domain[of "[]" "Some (lo # hi # rest)" lo hi]
    by (simp add: heatmap_domain_override)
  show ?thesis
    using empty_none empty_some
    by (simp add: heatmap_domain_override heatmap_domain_data heatmap_with_domain)
qed

theorem heatmap_colour_domain_witness:
  "[((0, 0), 2), ((1, 0), 5 :: real)] \<noteq> [] \<and> distinct (map fst [((0, 0), 2), ((1 :: int, 0 :: int), 5 :: real)])
   \<and> heatmap_domain [((0, 0), 2), ((1, 0), 5)] None = Inr (2, 5)
   \<and> heatmap sample_backend [((0, 0), 2), ((1, 0), 5)] 1 None True None False None
       = Inr (map (cell_fill sample_backend 1 grey_ramp 2 5) [((0, 0), 2), ((1, 0), 5)]
              @ [Colorbar grey_ramp 2 5 7 False])
   \<and> heatmap sample_backend [((0, 0), 2), ((1, 0), 5)] 1 None True None False (Some [0, 10])
       = Inr (map (cell_fill sample_backend 1 grey_ramp 0 10) [((0, 0), 2), ((1, 0), 5)]
              @ [Colorbar grey_ramp 0 10 7 False])"
  using heatmap_colour_domain[of sample_backend 1 None True None False 0 10 "[]" "[((0, 0), 2), ((1, 0), 5)]"]
  by (simp add: resolve_ax_def resolve_cmap_name_def sample_backend_def)

section \<open>Projection of malformed points\<close>

text \<open>
  Claim C8 as stated says that projecting a point whose arity is not 3 fails with a type
  error and never returns a Cartesian result. A point of four numbers is projected
  from its second and third components, by \<open>project_point\<close> and by \<open>project\<close>; and a pair of
  numbers fails with an index error, not a type error.
\<close>

theorem project_arity_counterexample:
  "project_point (Tup [Num 1, Num 2, Num 3, Num 4]) = Inr (7 / 2, 3 * sqrt 3 / 2)
   \<and> project (Tup [Num 1, Num 2, Num 3, Num 4]) = Inr (Single (7 / 2, 3 * sqrt 3 / 2))
   \<and> project_point (Tup [Num 1, Num 2]) = Inl IndexError
   \<and> project (Tup [Num 1, Num 2]) = Inl IndexError"
  by (simp add: project_def map_project_point_def project_point_def SQRT3OVER2_def)

lemma project_point_short: "length ps < 3 \<Longrightarrow> project_point (Tup ps) = Inl IndexError"
proof (cases ps)
  case Nil
  then show ?thesis by (simp add: project_point_def)
next
  case (Cons a qs)
  assume "length ps < 3"
  with Cons show ?thesis
    by (cases qs) (auto simp add: project_point_def)
qed

text \<open>
  Claim C8, amended. \<open>project_point\<close> raises an index error on every sequence of fewer
  than 3 components, and \<open>project\<close> propagates that index error for a point of one or two
  components whose first component is a number; an argument that is a number, not a
  sequence, raises a type error in both. None of these errors is recovered into a result.
  A sequence of more than 3 components is not rejected: \<open>project_point\<close> projects its
  components at index 1 and 2 and ignores the rest.
\<close>

theorem project_arity:
  "(length ps < 3 \<longrightarrow> project_point (Tup ps) = Inl IndexError)
   \<and> (length (Num r # rest) < 3 \<longrightarrow> project (Tup (Num r # rest)) = Inl IndexError)
   \<and> project_point (Num r) = Inl TypeError
   \<and> project (Num r) = Inl TypeError
   \<and> project_point (Tup (a # Num b # Num c # extra)) = Inr (b + c / 2, c * sqrt 3 / 2)"
proof -
  have "project (Tup (Num r # rest)) = Inl IndexError" if "length (Num r # rest) < 3"
    using project_point_short[OF that]
    by (simp add: project_def map_project_point_def project_point_def)
  moreover have "project_point (Tup (a # Num b # Num c # extra)) = Inr (b + c / 2, c * sqrt 3 / 2)"
    by (simp add: project_point_def SQRT3OVER2_def)
  ultimately show ?thesis
    by (simp add: project_point_short project_def map_project_point_def project_point_def)
qed

theorem project_arity_witness:
  "length [Num 1, Num 2] < 3 \<and> project_point (Tup [Num 1, Num 2]) = Inl IndexError
    \<and> project (Tup [Num 1, Num 2]) = Inl IndexError"
  using project_arity[of "[Num 1, Num 2]" 1 "[Num 2]"]
  by simp

section \<open>Normalisation\<close>







end
